theory Spec2Isabelle
  imports Main
begin

section \<open>The deposed-resource graph node (terraform/node_resource_destroy_deposed.go)\<close>

subsection \<open>Values the node refers to\<close>

text \<open>
  \<^verbatim>\<open>states.DeposedKey\<close> is formatted with \<^verbatim>\<open>%s\<close> in \<^verbatim>\<open>Name\<close>: a string.
  The empty string is the "unset" key.
\<close>

type_synonym DeposedKey = string

text \<open>
  A Go \<^verbatim>\<open>error\<close> value built by \<^verbatim>\<open>fmt.Errorf\<close>. A nil error is \<open>None\<close> of
  \<open>error option\<close>.
\<close>

datatype error = Errorf string

text \<open>
  Modelled from the spec: the address types of package \<^verbatim>\<open>addrs\<close> are declared outside
  the source file. The spec's Resource Instance Address is "a structured identifier
  (module path, resource kind, name, optional index)"; the node uses the whole address
  (\<^verbatim>\<open>n.Addr\<close>) and its \<^verbatim>\<open>Resource\<close> component (\<^verbatim>\<open>addr.Resource\<close>).
\<close>

datatype ResourceInstance = ResourceInstance string string "string option"

record AbsResourceInstance =
  Module :: "string list"
  Resource :: ResourceInstance

text \<open>Elements of the two reference collections; the node never builds one.\<close>

typedecl Referenceable
typedecl Reference

text \<open>
  Modelled from the spec: \<^verbatim>\<open>NodeAbstractResourceInstance\<close> is embedded by pointer and
  declared outside the source file. Only the two fields the node reads are kept: the
  instance address ("bound to one resource instance address plus one DeposedKey") and
  the resolved provider address.
\<close>

record NodeAbstractResourceInstance =
  Addr :: AbsResourceInstance
  ResolvedProvider :: string

record graphNodeDeposedResource = NodeAbstractResourceInstance +
  DeposedKey :: DeposedKey

text \<open>
  Modelled from the spec: \<^verbatim>\<open>ResourceInstanceAddr\<close> is a method of the embedded
  \<^verbatim>\<open>NodeAbstractResourceInstance\<close>; it hands back "the instance address" of the node.
\<close>

definition ResourceInstanceAddr :: "graphNodeDeposedResource \<Rightarrow> AbsResourceInstance" where
  "ResourceInstanceAddr n = Addr n"

subsection \<open>Graph-integration methods\<close>

text \<open>
  \<^verbatim>\<open>Name\<close>: \<^verbatim>\<open>fmt.Sprintf("%s (deposed %s)", n.Addr.String(), n.DeposedKey)\<close>. The
  rendering \<^verbatim>\<open>String\<close> of an address lives in package \<^verbatim>\<open>addrs\<close> and is a parameter.
\<close>

definition Name :: "(AbsResourceInstance \<Rightarrow> string) \<Rightarrow> graphNodeDeposedResource \<Rightarrow> string" where
  "Name String n = String (Addr n) @ '' (deposed '' @ DeposedKey n @ '')''"

text \<open>Both return \<^verbatim>\<open>nil\<close>, the slice of length 0.\<close>

definition ReferenceableAddrs :: "graphNodeDeposedResource \<Rightarrow> Referenceable list" where
  "ReferenceableAddrs n = []"

definition References :: "graphNodeDeposedResource \<Rightarrow> Reference list" where
  "References n = []"

definition DestroyAddr :: "graphNodeDeposedResource \<Rightarrow> AbsResourceInstance" where
  "DestroyAddr n = (let addr = ResourceInstanceAddr n in addr)"

definition CreateBeforeDestroy :: "graphNodeDeposedResource \<Rightarrow> bool" where
  "CreateBeforeDestroy n = True"

text \<open>
  \<^verbatim>\<open>ModifyCreateBeforeDestroy\<close> has a pointer receiver, so it could write to the node:
  the model returns the error together with the node as the call leaves it.
\<close>

definition ModifyCreateBeforeDestroy ::
  "graphNodeDeposedResource \<Rightarrow> bool \<Rightarrow> error option \<times> graphNodeDeposedResource" where
  "ModifyCreateBeforeDestroy n v =
     (if \<not> v
      then (Some (Errorf ''can't deactivate create_before_destroy for a deposed instance''), n)
      else (None, n))"

text \<open>A caller issuing several \<^verbatim>\<open>ModifyCreateBeforeDestroy\<close> calls in a row on one node.\<close>

fun ModifyCreateBeforeDestroy_calls ::
  "graphNodeDeposedResource \<Rightarrow> bool list \<Rightarrow> graphNodeDeposedResource" where
  "ModifyCreateBeforeDestroy_calls n [] = n"
| "ModifyCreateBeforeDestroy_calls n (v # vs) =
     ModifyCreateBeforeDestroy_calls (snd (ModifyCreateBeforeDestroy n v)) vs"

subsection \<open>The embeddable deposed-key holder\<close>

record graphNodeDeposer =
  PreallocatedDeposedKey :: DeposedKey

text \<open>
  The struct is made to be embedded: the setter is stated on the record scheme, the
  embedding node's other fields being the \<open>more\<close> part.
\<close>

definition SetPreallocatedDeposedKey ::
  "'a graphNodeDeposer_scheme \<Rightarrow> DeposedKey \<Rightarrow> 'a graphNodeDeposer_scheme" where
  "SetPreallocatedDeposedKey n key = n\<lparr>PreallocatedDeposedKey := key\<rparr>"

section \<open>The evaluation pipeline of the node\<close>

subsection \<open>Collaborators of the pipeline\<close>

text \<open>
  Modelled from the spec: \<^verbatim>\<open>walkOperation\<close> and its constants are declared outside the
  source file. The spec's operation kind is "one of Refresh, Apply, Destroy".
\<close>

datatype walkOperation = walkRefresh | walkApply | walkDestroy

text \<open>
  Modelled from the spec: \<^verbatim>\<open>states.ResourceInstanceObject\<close> is declared outside the
  source file: "the provisioned-state snapshot for one resource instance" (attribute
  values). A nil pointer to one is the spec's "absent", \<open>None\<close> here.
\<close>

datatype ResourceInstanceObject = ResourceInstanceObject "(string \<times> string) list"

text \<open>
  Modelled from the spec: \<^verbatim>\<open>plans.ResourceInstanceChange\<close> is declared outside the
  source file: "a computed transition (in this core, always a destroy change)" of the
  object read for an address.
\<close>

datatype ResourceInstanceChange =
  DestroyChange ResourceInstance "ResourceInstanceObject option"

text \<open>
  Modelled from the spec: \<^verbatim>\<open>providers.Interface\<close> and \<^verbatim>\<open>ProviderSchema\<close> are declared
  outside the source file. The Provider Gateway of the spec offers
  \<^verbatim>\<open>Refresh(address, object) \<rightarrow> updated-object, error\<close> and
  \<^verbatim>\<open>ApplyDestroy(address, change) \<rightarrow> resulting-object, error\<close>; both results come back
  together, so a failing destroy can still report a partially-updated object.
\<close>

datatype ProviderSchema = ProviderSchema string

record Provider =
  Refresh :: "ResourceInstance \<Rightarrow> ResourceInstanceObject option
                \<Rightarrow> ResourceInstanceObject option \<times> error option"
  ApplyDestroy :: "ResourceInstance \<Rightarrow> ResourceInstanceChange
                \<Rightarrow> ResourceInstanceObject option \<times> error option"

text \<open>
  Modelled from the spec: what an outside observer sees of a run, in the order it
  happens: calls on the State Repository (\<^verbatim>\<open>ReadDeposed\<close>, \<^verbatim>\<open>WriteDeposed\<close>), calls on
  the Provider Gateway (acquiring the handle, \<^verbatim>\<open>Refresh\<close>, \<^verbatim>\<open>ApplyDestroy\<close>) and the
  notifications of the Hook sink (\<^verbatim>\<open>NotifyPreApply\<close>, \<^verbatim>\<open>NotifyPostApply\<close>,
  \<^verbatim>\<open>NotifyStateUpdated\<close>).
\<close>

datatype event =
    GetProviderCall string
  | ReadDeposedCall ResourceInstance DeposedKey
  | WriteDeposedCall ResourceInstance DeposedKey "ResourceInstanceObject option"
  | RefreshCall ResourceInstance "ResourceInstanceObject option"
  | ApplyDestroyCall ResourceInstance ResourceInstanceChange
  | NotifyPreApply ResourceInstance
  | NotifyPostApply ResourceInstance "error option"
  | NotifyStateUpdated

fun is_hook :: "event \<Rightarrow> bool" where
  "is_hook (NotifyPreApply a) = True"
| "is_hook (NotifyPostApply a e) = True"
| "is_hook NotifyStateUpdated = True"
| "is_hook ev = False"

text \<open>
  Modelled from the spec: the State Repository files deposed objects by address and
  key, "writing absent removes the entry". The world is the repository's content and
  the events seen so far, oldest first.
\<close>

record world =
  deposed :: "ResourceInstance \<times> DeposedKey \<rightharpoonup> ResourceInstanceObject"
  trace :: "event list"

definition emit :: "event \<Rightarrow> world \<Rightarrow> world" where
  "emit ev w = w\<lparr>trace := trace w @ [ev]\<rparr>"

text \<open>
  Modelled from the spec: the evaluation context of a run (\<^verbatim>\<open>EvalContext\<close>, declared
  outside the source file): the operation kind of the enclosing run, the provider and
  schema found for a provider address, and whether the repository fails on a read or a
  write of an address and key ("Repository error (read/write failure)").
\<close>

record ctx =
  Op :: walkOperation
  Providers :: "string \<Rightarrow> Provider"
  Schemas :: "string \<Rightarrow> ProviderSchema"
  ReadFault :: "ResourceInstance \<Rightarrow> DeposedKey \<Rightarrow> error option"
  WriteFault :: "ResourceInstance \<Rightarrow> DeposedKey \<Rightarrow> error option"

subsection \<open>The locals of \<^verbatim>\<open>EvalTree\<close> and pointers to them\<close>

text \<open>
  \<^verbatim>\<open>EvalTree\<close> declares five locals (\<^verbatim>\<open>provider\<close>, \<^verbatim>\<open>providerSchema\<close>, \<^verbatim>\<open>state\<close>,
  \<^verbatim>\<open>change\<close>, \<^verbatim>\<open>err\<close>), all nil at first, and hands their addresses to the steps.
  A pointer field of a step is \<open>Some\<close> of the local it points to, or \<open>None\<close> where the
  source leaves the field out.
\<close>

datatype local = provider' | providerSchema' | state' | change' | err'

type_synonym ptr = "local option"

record scope =
  provider :: "Provider option"
  providerSchema :: "ProviderSchema option"
  state :: "ResourceInstanceObject option"
  change :: "ResourceInstanceChange option"
  err :: "error option"

definition locals_nil :: scope where
  "locals_nil = \<lparr>provider = None, providerSchema = None, state = None,
                  change = None, err = None\<rparr>"

text \<open>Reading through a pointer that is nil, or of another type, gives nil.\<close>

definition load_provider :: "scope \<Rightarrow> ptr \<Rightarrow> Provider option" where
  "load_provider sc p = (if p = Some provider' then provider sc else None)"

definition load_state :: "scope \<Rightarrow> ptr \<Rightarrow> ResourceInstanceObject option" where
  "load_state sc p = (if p = Some state' then state sc else None)"

definition load_change :: "scope \<Rightarrow> ptr \<Rightarrow> ResourceInstanceChange option" where
  "load_change sc p = (if p = Some change' then change sc else None)"

definition load_err :: "scope \<Rightarrow> ptr \<Rightarrow> error option" where
  "load_err sc p = (if p = Some err' then err sc else None)"

definition store_provider :: "ptr \<Rightarrow> Provider option \<Rightarrow> scope \<Rightarrow> scope" where
  "store_provider p v sc = (if p = Some provider' then sc\<lparr>provider := v\<rparr> else sc)"

definition store_providerSchema :: "ptr \<Rightarrow> ProviderSchema option \<Rightarrow> scope \<Rightarrow> scope" where
  "store_providerSchema p v sc =
     (if p = Some providerSchema' then sc\<lparr>providerSchema := v\<rparr> else sc)"

definition store_state :: "ptr \<Rightarrow> ResourceInstanceObject option \<Rightarrow> scope \<Rightarrow> scope" where
  "store_state p v sc = (if p = Some state' then sc\<lparr>state := v\<rparr> else sc)"

definition store_change :: "ptr \<Rightarrow> ResourceInstanceChange option \<Rightarrow> scope \<Rightarrow> scope" where
  "store_change p v sc = (if p = Some change' then sc\<lparr>change := v\<rparr> else sc)"

definition store_err :: "ptr \<Rightarrow> error option \<Rightarrow> scope \<Rightarrow> scope" where
  "store_err p v sc = (if p = Some err' then sc\<lparr>err := v\<rparr> else sc)"

subsection \<open>Steps\<close>

typedecl ResourceConfig

text \<open>
  Modelled from the spec: the step types (\<^verbatim>\<open>EvalSequence\<close>, \<^verbatim>\<open>EvalOpFilter\<close>,
  \<^verbatim>\<open>EvalGetProvider\<close>, ...) are declared outside the source file; each constructor has
  the fields \<^verbatim>\<open>EvalTree\<close> sets, in this order:
  \<^item> \<open>EvalSequence\<close>: Nodes;
  \<^item> \<open>EvalOpFilter\<close>: Ops, Node;
  \<^item> \<open>EvalGetProvider\<close>: Addr, Output, Schema;
  \<^item> \<open>EvalReadStateDeposed\<close>: Addr, Key, Provider, ProviderSchema, Output;
  \<^item> \<open>EvalRefresh\<close>: Addr, ProviderAddr, Provider, ProviderSchema, State, Output;
  \<^item> \<open>EvalWriteStateDeposed\<close>: Addr, Key, ProviderAddr, ProviderSchema, State;
  \<^item> \<open>EvalDiffDestroy\<close>: Addr, State, Output;
  \<^item> \<open>EvalApplyPre\<close>: Addr, State, Change;
  \<^item> \<open>EvalApply\<close>: Addr, Config, State, Change, Provider, ProviderAddr,
    ProviderSchema, Output, Error;
  \<^item> \<open>EvalApplyPost\<close>: Addr, State, Error;
  \<^item> \<open>EvalReturnError\<close>: Error;
  \<^item> \<open>EvalUpdateStateHook\<close>: no field.
\<close>

datatype EvalNode =
    EvalSequence "EvalNode list"
  | EvalOpFilter "walkOperation list" EvalNode
  | EvalGetProvider string ptr ptr
  | EvalReadStateDeposed ResourceInstance DeposedKey ptr ptr ptr
  | EvalRefresh ResourceInstance string ptr ptr ptr ptr
  | EvalWriteStateDeposed ResourceInstance DeposedKey string ptr ptr
  | EvalDiffDestroy ResourceInstance ptr ptr
  | EvalApplyPre ResourceInstance ptr ptr
  | EvalApply ResourceInstance "ResourceConfig option" ptr ptr ptr string ptr ptr ptr
  | EvalApplyPost ResourceInstance ptr ptr
  | EvalReturnError ptr
  | EvalUpdateStateHook

text \<open>A step that needs a provider or a change and finds nil cannot go on.\<close>

definition nil_dereference :: error where
  "nil_dereference = Errorf ''nil pointer dereference''"

text \<open>
  Modelled from the spec: the \<^verbatim>\<open>Eval\<close> methods of the steps are outside the source
  file. A step returns an error or nil, the world and the locals as it leaves them.
  \<^item> Pipeline (4.2, 2): steps run "in registration order with short-circuit on fatal
    error": the first step that returns an error ends the sequence with that error.
  \<^item> Operation Filter (4.1): "When the enclosing run's operation kind is a member of the
    set, the inner pipeline executes in place; otherwise it is skipped entirely".
  \<^item> "acquire provider handle and schema", "read the deposed object by key from the
    repository", "write the ... object back under the same key": the repository calls
    of 6, where a "Repository error (read/write failure)" is "fatal to the pipeline
    invocation": the step returns it and the repository is left as it was.
  \<^item> "ask the provider to refresh it": the refreshed object replaces the working
    object. The source gives this step no \<^verbatim>\<open>Error\<close> field: a provider error has no
    local to be kept in and is the step's own result.
  \<^item> "compute a destroy change for it (... here it is always destroy this object)":
    the source gives this step no provider, so the change is built from the address and
    the working object alone.
  \<^item> "ask the provider to apply the destroy change": the resulting object replaces the
    working object, "whatever partial state the provider reported" on failure, and the
    provider's error is captured in the local named by \<^verbatim>\<open>Error\<close> (returned by the step
    when there is none).
  \<^item> "propagate any error captured during apply": \<^verbatim>\<open>EvalReturnError\<close> returns what the
    local named by \<^verbatim>\<open>Error\<close> holds.
  \<^item> Hooks are "fire-and-forget notifications, never affect control flow or state".
\<close>

fun Eval :: "ctx \<Rightarrow> EvalNode \<Rightarrow> world \<times> scope \<Rightarrow> error option \<times> world \<times> scope"
  and Eval_Nodes :: "ctx \<Rightarrow> EvalNode list \<Rightarrow> world \<times> scope \<Rightarrow> error option \<times> world \<times> scope"
where
  "Eval c (EvalSequence nodes) s = Eval_Nodes c nodes s"
| "Eval c (EvalOpFilter ops node) s =
     (if Op c \<in> set ops then Eval c node s else (None, s))"
| "Eval c (EvalGetProvider paddr out_p schema_p) (w, sc) =
     (None, emit (GetProviderCall paddr) w,
      store_providerSchema schema_p (Some (Schemas c paddr))
        (store_provider out_p (Some (Providers c paddr)) sc))"
| "Eval c (EvalReadStateDeposed addr key prov_p schema_p out_p) (w, sc) =
     (case ReadFault c addr key of
        Some e \<Rightarrow> (Some e, emit (ReadDeposedCall addr key) w, sc)
      | None \<Rightarrow> (None, emit (ReadDeposedCall addr key) w,
                 store_state out_p (deposed w (addr, key)) sc))"
| "Eval c (EvalRefresh addr paddr prov_p schema_p state_p out_p) (w, sc) =
     (case load_provider sc prov_p of
        None \<Rightarrow> (Some nil_dereference, w, sc)
      | Some p \<Rightarrow>
          (case Refresh p addr (load_state sc state_p) of
             (obj, Some e) \<Rightarrow> (Some e, emit (RefreshCall addr (load_state sc state_p)) w, sc)
           | (obj, None) \<Rightarrow> (None, emit (RefreshCall addr (load_state sc state_p)) w,
                             store_state out_p obj sc)))"
| "Eval c (EvalWriteStateDeposed addr key paddr schema_p state_p) (w, sc) =
     (case WriteFault c addr key of
        Some e \<Rightarrow> (Some e, emit (WriteDeposedCall addr key (load_state sc state_p)) w, sc)
      | None \<Rightarrow>
          (None,
           emit (WriteDeposedCall addr key (load_state sc state_p))
             (w\<lparr>deposed := (deposed w)((addr, key) := load_state sc state_p)\<rparr>),
           sc))"
| "Eval c (EvalDiffDestroy addr state_p out_p) (w, sc) =
     (None, w, store_change out_p (Some (DestroyChange addr (load_state sc state_p))) sc)"
| "Eval c (EvalApplyPre addr state_p change_p) (w, sc) =
     (None, emit (NotifyPreApply addr) w, sc)"
| "Eval c (EvalApply addr config state_p change_p prov_p paddr schema_p out_p err_p) (w, sc) =
     (case load_provider sc prov_p of
        None \<Rightarrow> (Some nil_dereference, w, sc)
      | Some p \<Rightarrow>
          (case load_change sc change_p of
             None \<Rightarrow> (Some nil_dereference, w, sc)
           | Some ch \<Rightarrow>
               (case ApplyDestroy p addr ch of
                  (obj, perr) \<Rightarrow>
                    (if err_p = None
                     then (perr, emit (ApplyDestroyCall addr ch) w, store_state out_p obj sc)
                     else (None, emit (ApplyDestroyCall addr ch) w,
                           store_err err_p perr (store_state out_p obj sc))))))"
| "Eval c (EvalApplyPost addr state_p err_p) (w, sc) =
     (None, emit (NotifyPostApply addr (load_err sc err_p)) w, sc)"
| "Eval c (EvalReturnError err_p) (w, sc) = (load_err sc err_p, w, sc)"
| "Eval c EvalUpdateStateHook (w, sc) = (None, emit NotifyStateUpdated w, sc)"
| "Eval_Nodes c [] s = (None, s)"
| "Eval_Nodes c (node # nodes) s =
     (case Eval c node s of
        (Some e, s') \<Rightarrow> (Some e, s')
      | (None, s') \<Rightarrow> Eval_Nodes c nodes s')"

subsection \<open>\<^verbatim>\<open>EvalTree\<close>\<close>

text \<open>
  The first node appended to \<^verbatim>\<open>seq.Nodes\<close> ("Refresh the resource"). In the source
  the \<^verbatim>\<open>EvalReadStateDeposed\<close> of this branch sets no \<^verbatim>\<open>Provider\<close>.
\<close>

definition EvalTree_refresh :: "graphNodeDeposedResource \<Rightarrow> EvalNode" where
  "EvalTree_refresh n =
     (let addr = ResourceInstanceAddr n in
      EvalOpFilter [walkRefresh]
        (EvalSequence
          [EvalGetProvider (ResolvedProvider n) (Some provider') (Some providerSchema'),
           EvalReadStateDeposed (Resource addr) (DeposedKey n) None (Some providerSchema')
             (Some state'),
           EvalRefresh (Resource addr) (ResolvedProvider n) (Some provider')
             (Some providerSchema') (Some state') (Some state'),
           EvalWriteStateDeposed (Resource addr) (DeposedKey n) (ResolvedProvider n)
             (Some providerSchema') (Some state')]))"

text \<open>The second node appended to \<^verbatim>\<open>seq.Nodes\<close> ("Apply").\<close>

definition EvalTree_apply :: "graphNodeDeposedResource \<Rightarrow> EvalNode" where
  "EvalTree_apply n =
     (let addr = ResourceInstanceAddr n in
      EvalOpFilter [walkApply, walkDestroy]
        (EvalSequence
          [EvalGetProvider (ResolvedProvider n) (Some provider') (Some providerSchema'),
           EvalReadStateDeposed (Resource addr) (DeposedKey n) (Some provider')
             (Some providerSchema') (Some state'),
           EvalDiffDestroy (Resource addr) (Some state') (Some change'),
           EvalApplyPre (Resource addr) (Some state') (Some change'),
           EvalApply (Resource addr) None (Some state') (Some change') (Some provider')
             (ResolvedProvider n) (Some providerSchema') (Some state') (Some err'),
           EvalWriteStateDeposed (Resource addr) (DeposedKey n) (ResolvedProvider n)
             (Some providerSchema') (Some state'),
           EvalApplyPost (Resource addr) (Some state') (Some err'),
           EvalReturnError (Some err'),
           EvalUpdateStateHook]))"

definition EvalTree :: "graphNodeDeposedResource \<Rightarrow> EvalNode" where
  "EvalTree n = EvalSequence ([] @ [EvalTree_refresh n] @ [EvalTree_apply n])"

text \<open>
  Modelled from the spec: the "entry point to run the pipeline for a given operation
  kind": the graph walker evaluates the node's tree once, on fresh locals, and gets the
  error (or nil) back; the world is what the run leaves behind.
\<close>

definition run_EvalTree :: "ctx \<Rightarrow> graphNodeDeposedResource \<Rightarrow> world \<Rightarrow> error option \<times> world" where
  "run_EvalTree c n w =
     (case Eval c (EvalTree n) (w, locals_nil) of (r, w', sc') \<Rightarrow> (r, w'))"

subsection \<open>A concrete node, repository and providers\<close>

definition example_instance :: ResourceInstance where
  "example_instance = ResourceInstance ''aws_instance'' ''web'' None"

definition example_node :: graphNodeDeposedResource where
  "example_node =
     \<lparr>Addr = \<lparr>Module = [], Resource = example_instance\<rparr>,
      ResolvedProvider = ''provider.aws'', DeposedKey = ''a1b2c3d4''\<rparr>"

definition example_object :: ResourceInstanceObject where
  "example_object = ResourceInstanceObject [(''id'', ''i-1''), (''ami'', ''ami-old'')]"

definition example_partial :: ResourceInstanceObject where
  "example_partial = ResourceInstanceObject [(''id'', ''i-1''), (''ami'', ''unknown'')]"

definition example_refreshed :: ResourceInstanceObject where
  "example_refreshed = ResourceInstanceObject [(''id'', ''i-1''), (''ami'', ''ami-new'')]"

definition example_error :: error where
  "example_error = Errorf ''timeout while detaching volume''"

definition example_world :: world where
  "example_world =
     \<lparr>deposed = [(example_instance, ''a1b2c3d4'') \<mapsto> example_object], trace = []\<rparr>"

text \<open>A provider whose destroy fails half-way, and one whose destroy succeeds.\<close>

definition failing_provider :: Provider where
  "failing_provider =
     \<lparr>Refresh = (\<lambda>a obj. (Some example_refreshed, None)),
      ApplyDestroy = (\<lambda>a ch. (Some example_partial, Some example_error))\<rparr>"

definition working_provider :: Provider where
  "working_provider =
     \<lparr>Refresh = (\<lambda>a obj. (Some example_refreshed, None)),
      ApplyDestroy = (\<lambda>a ch. (None, None))\<rparr>"

definition example_ctx :: "walkOperation \<Rightarrow> Provider \<Rightarrow> ctx" where
  "example_ctx operation p =
     \<lparr>Op = operation, Providers = (\<lambda>paddr. p), Schemas = (\<lambda>paddr. ProviderSchema paddr),
      ReadFault = (\<lambda>a k. None), WriteFault = (\<lambda>a k. None)\<rparr>"

section \<open>Properties of the graph-integration methods\<close>

text \<open>
  C6: for every deposed node, \<^verbatim>\<open>CreateBeforeDestroy()\<close> returns true.
\<close>

theorem CreateBeforeDestroy_always_true: "CreateBeforeDestroy n = True"
  by (simp add: CreateBeforeDestroy_def)

text \<open>
  C5: for every deposed node, \<^verbatim>\<open>ModifyCreateBeforeDestroy(false)\<close> fails: it returns
  the error "can't deactivate create_before_destroy for a deposed instance"; and
  \<^verbatim>\<open>ModifyCreateBeforeDestroy(true)\<close> returns no error and does nothing to the node.
\<close>

theorem ModifyCreateBeforeDestroy_result:
  "fst (ModifyCreateBeforeDestroy n False) =
     Some (Errorf ''can't deactivate create_before_destroy for a deposed instance'')
   \<and> fst (ModifyCreateBeforeDestroy n False) \<noteq> None
   \<and> ModifyCreateBeforeDestroy n True = (None, n)"
  by (simp add: ModifyCreateBeforeDestroy_def)

text \<open>
  C8: for every deposed node, \<^verbatim>\<open>ReferenceableAddrs()\<close> and \<^verbatim>\<open>References()\<close> both return
  empty collections.
\<close>

theorem no_references: "ReferenceableAddrs n = [] \<and> References n = []"
  by (simp add: ReferenceableAddrs_def References_def)

text \<open>
  C9: for every key \<open>k\<close>, \<^verbatim>\<open>SetPreallocatedDeposedKey(k)\<close> stores exactly \<open>k\<close> in the
  field \<^verbatim>\<open>PreallocatedDeposedKey\<close>: reading the field afterwards gives \<open>k\<close> unchanged
  (also for the unset key), and the fields of the embedding node are left alone.
\<close>

theorem SetPreallocatedDeposedKey_roundtrip:
  "PreallocatedDeposedKey (SetPreallocatedDeposedKey n k) = k
   \<and> graphNodeDeposer.more (SetPreallocatedDeposedKey n k) = graphNodeDeposer.more n"
  by (simp add: SetPreallocatedDeposedKey_def)

text \<open>
  C10: for every deposed node and every boolean \<open>v\<close>, \<^verbatim>\<open>ModifyCreateBeforeDestroy(v)\<close>
  leaves the node as it was, on the error path too; so after any sequence of such
  calls \<^verbatim>\<open>CreateBeforeDestroy()\<close> still returns true and \<^verbatim>\<open>Name()\<close>, \<^verbatim>\<open>DestroyAddr()\<close>
  and the \<^verbatim>\<open>DeposedKey\<close> are what they were.
\<close>

theorem ModifyCreateBeforeDestroy_frame:
  "snd (ModifyCreateBeforeDestroy n v) = n
   \<and> ModifyCreateBeforeDestroy_calls n vs = n
   \<and> CreateBeforeDestroy (ModifyCreateBeforeDestroy_calls n vs) = True
   \<and> Name String (ModifyCreateBeforeDestroy_calls n vs) = Name String n
   \<and> DestroyAddr (ModifyCreateBeforeDestroy_calls n vs) = DestroyAddr n
   \<and> DeposedKey (ModifyCreateBeforeDestroy_calls n vs) = DeposedKey n"
proof -
  have one: "snd (ModifyCreateBeforeDestroy m b) = m" for m b
    by (simp add: ModifyCreateBeforeDestroy_def)
  have many: "ModifyCreateBeforeDestroy_calls n vs = n"
    by (induction vs) (simp_all add: one)
  show ?thesis
    by (simp add: one many CreateBeforeDestroy_def)
qed

section \<open>Properties of the pipeline\<close>

subsection \<open>What a run does, step by step\<close>

lemmas pipeline_defs =
  run_EvalTree_def EvalTree_def EvalTree_refresh_def EvalTree_apply_def
  ResourceInstanceAddr_def Let_def emit_def locals_nil_def
  load_provider_def load_state_def load_change_def load_err_def
  store_provider_def store_providerSchema_def store_state_def store_change_def store_err_def

lemma run_EvalTree_apply:
  assumes "Op c = walkApply \<or> Op c = walkDestroy"
  shows "run_EvalTree c n w =
    (let a = Resource (Addr n); k = DeposedKey n; pa = ResolvedProvider n;
         ch = DestroyChange a (deposed w (a, k));
         obj = fst (ApplyDestroy (Providers c pa) a ch);
         perr = snd (ApplyDestroy (Providers c pa) a ch);
         t1 = trace w @ [GetProviderCall pa, ReadDeposedCall a k];
         t2 = t1 @ [NotifyPreApply a, ApplyDestroyCall a ch, WriteDeposedCall a k obj]
     in case ReadFault c a k of
          Some e \<Rightarrow> (Some e, w\<lparr>trace := t1\<rparr>)
        | None \<Rightarrow>
           (case WriteFault c a k of
              Some e \<Rightarrow> (Some e, w\<lparr>trace := t2\<rparr>)
            | None \<Rightarrow>
               (case perr of
                  Some e \<Rightarrow> (Some e, w\<lparr>deposed := (deposed w)((a, k) := obj),
                                       trace := t2 @ [NotifyPostApply a perr]\<rparr>)
                | None \<Rightarrow> (None, w\<lparr>deposed := (deposed w)((a, k) := obj),
                       trace := t2 @ [NotifyPostApply a perr, NotifyStateUpdated]\<rparr>))))"
  using assms
  by (auto simp: pipeline_defs split: option.splits prod.splits)

lemma run_EvalTree_refresh:
  assumes "Op c = walkRefresh"
  shows "run_EvalTree c n w =
    (let a = Resource (Addr n); k = DeposedKey n; pa = ResolvedProvider n;
         old = deposed w (a, k);
         obj = fst (Refresh (Providers c pa) a old);
         perr = snd (Refresh (Providers c pa) a old);
         t1 = trace w @ [GetProviderCall pa, ReadDeposedCall a k];
         t2 = t1 @ [RefreshCall a old]
     in case ReadFault c a k of
          Some e \<Rightarrow> (Some e, w\<lparr>trace := t1\<rparr>)
        | None \<Rightarrow>
           (case perr of
              Some e \<Rightarrow> (Some e, w\<lparr>trace := t2\<rparr>)
            | None \<Rightarrow>
               (case WriteFault c a k of
                  Some e \<Rightarrow> (Some e, w\<lparr>trace := t2 @ [WriteDeposedCall a k obj]\<rparr>)
                | None \<Rightarrow> (None, w\<lparr>deposed := (deposed w)((a, k) := obj),
                       trace := t2 @ [WriteDeposedCall a k obj]\<rparr>))))"
  using assms
  by (auto simp: pipeline_defs split: option.splits prod.splits)

subsection \<open>The operation filter\<close>

text \<open>
  C4: for every deposed node, locals and world: under operation kind Refresh the branch
  scoped to Apply and Destroy returns nil and leaves the world (repository content and
  the record of repository calls, provider calls and hook notifications) and the locals
  exactly as they were, so the whole tree does what its refresh branch does; under Apply
  or Destroy the same holds of the branch scoped to Refresh.
\<close>

theorem op_filter_skips_other_branch:
  "(Op c = walkRefresh \<longrightarrow>
      Eval c (EvalTree_apply n) (w, sc) = (None, w, sc)
      \<and> Eval c (EvalTree n) (w, sc) = Eval c (EvalTree_refresh n) (w, sc))
   \<and> (Op c = walkApply \<or> Op c = walkDestroy \<longrightarrow>
      Eval c (EvalTree_refresh n) (w, sc) = (None, w, sc)
      \<and> Eval c (EvalTree n) (w, sc) = Eval c (EvalTree_apply n) (w, sc))"
proof -
  have skip_apply: "Eval c (EvalTree_apply n) s = (None, s)" if "Op c = walkRefresh" for s
    using that by (simp add: EvalTree_apply_def Let_def)
  have skip_refresh: "Eval c (EvalTree_refresh n) s = (None, s)"
    if "Op c = walkApply \<or> Op c = walkDestroy" for s
    using that by (auto simp: EvalTree_refresh_def Let_def)
  have whole_refresh: "Eval c (EvalTree n) (w, sc) = Eval c (EvalTree_refresh n) (w, sc)"
    if "Op c = walkRefresh"
    using skip_apply [OF that]
    by (simp add: EvalTree_def split: prod.splits option.splits)
  have whole_apply: "Eval c (EvalTree n) (w, sc) = Eval c (EvalTree_apply n) (w, sc)"
    if "Op c = walkApply \<or> Op c = walkDestroy"
    using skip_refresh [OF that]
    by (simp add: EvalTree_def split: prod.splits option.splits)
  show ?thesis
    using skip_apply skip_refresh whole_refresh whole_apply by simp
qed

theorem op_filter_skips_other_branch_witness:
  "Eval (example_ctx walkRefresh working_provider) (EvalTree_apply example_node)
     (example_world, locals_nil) = (None, example_world, locals_nil)
   \<and> Eval (example_ctx walkApply working_provider) (EvalTree_refresh example_node)
     (example_world, locals_nil) = (None, example_world, locals_nil)
   \<and> Eval (example_ctx walkDestroy working_provider) (EvalTree_refresh example_node)
     (example_world, locals_nil) = (None, example_world, locals_nil)"
  using op_filter_skips_other_branch
      [of "example_ctx walkRefresh working_provider" example_node example_world locals_nil]
    op_filter_skips_other_branch
      [of "example_ctx walkApply working_provider" example_node example_world locals_nil]
    op_filter_skips_other_branch
      [of "example_ctx walkDestroy working_provider" example_node example_world locals_nil]
  by (simp add: example_ctx_def)

subsection \<open>The refresh branch\<close>

text \<open>
  C7: for every deposed object filed under the node's key, running the tree under
  operation kind Refresh with a provider that reports the object still there with updated
  attributes (and a repository that serves the read and the write) returns no error and
  leaves the updated object filed under the same key, every other entry as it was; the
  run acquires provider and schema, reads the deposed object by key, asks the provider to
  refresh it and writes the result back under the same key, in that order and nothing
  else. What was acquired is what the context holds for the node's resolved provider:
  at the end of the run the local \<^verbatim>\<open>provider\<close> holds that provider, the local
  \<^verbatim>\<open>providerSchema\<close> that schema, and the local \<^verbatim>\<open>state\<close> the updated object.
\<close>

theorem refresh_writes_updated_object:
  assumes "Op c = walkRefresh"
    and "ReadFault c (Resource (Addr n)) (DeposedKey n) = None"
    and "WriteFault c (Resource (Addr n)) (DeposedKey n) = None"
    and "deposed w (Resource (Addr n), DeposedKey n) = Some old"
    and "Refresh (Providers c (ResolvedProvider n)) (Resource (Addr n)) (Some old)
           = (Some new, None)"
  shows "fst (run_EvalTree c n w) = None
    \<and> deposed (snd (run_EvalTree c n w)) (Resource (Addr n), DeposedKey n) = Some new
    \<and> deposed (snd (run_EvalTree c n w))
        = (deposed w)((Resource (Addr n), DeposedKey n) \<mapsto> new)
    \<and> trace (snd (run_EvalTree c n w))
        = trace w @ [GetProviderCall (ResolvedProvider n),
                     ReadDeposedCall (Resource (Addr n)) (DeposedKey n),
                     RefreshCall (Resource (Addr n)) (Some old),
                     WriteDeposedCall (Resource (Addr n)) (DeposedKey n) (Some new)]
    \<and> Eval c (EvalTree n) (w, locals_nil)
        = (None, snd (run_EvalTree c n w),
           \<lparr>provider = Some (Providers c (ResolvedProvider n)),
            providerSchema = Some (Schemas c (ResolvedProvider n)),
            state = Some new, change = None, err = None\<rparr>)
    \<and> provider (snd (snd (Eval c (EvalTree n) (w, locals_nil))))
        = Some (Providers c (ResolvedProvider n))
    \<and> providerSchema (snd (snd (Eval c (EvalTree n) (w, locals_nil))))
        = Some (Schemas c (ResolvedProvider n))
    \<and> state (snd (snd (Eval c (EvalTree n) (w, locals_nil)))) = Some new"
proof -
  have run: "run_EvalTree c n w =
      (None, w\<lparr>deposed := (deposed w)((Resource (Addr n), DeposedKey n) \<mapsto> new),
        trace := trace w @ [GetProviderCall (ResolvedProvider n),
                     ReadDeposedCall (Resource (Addr n)) (DeposedKey n),
                     RefreshCall (Resource (Addr n)) (Some old),
                     WriteDeposedCall (Resource (Addr n)) (DeposedKey n) (Some new)]\<rparr>)"
    unfolding run_EvalTree_refresh [OF assms(1)] Let_def
    by (simp add: assms(2-5))
  have locals: "Eval c (EvalTree n) (w, locals_nil)
      = (None, w\<lparr>deposed := (deposed w)((Resource (Addr n), DeposedKey n) \<mapsto> new),
        trace := trace w @ [GetProviderCall (ResolvedProvider n),
                     ReadDeposedCall (Resource (Addr n)) (DeposedKey n),
                     RefreshCall (Resource (Addr n)) (Some old),
                     WriteDeposedCall (Resource (Addr n)) (DeposedKey n) (Some new)]\<rparr>,
           \<lparr>provider = Some (Providers c (ResolvedProvider n)),
            providerSchema = Some (Schemas c (ResolvedProvider n)),
            state = Some new, change = None, err = None\<rparr>)"
    by (simp add: EvalTree_def EvalTree_refresh_def EvalTree_apply_def
        ResourceInstanceAddr_def Let_def emit_def locals_nil_def
        load_provider_def load_state_def store_provider_def store_providerSchema_def
        store_state_def assms)
  show ?thesis
    unfolding locals run by simp
qed

theorem refresh_writes_updated_object_witness:
  "fst (run_EvalTree (example_ctx walkRefresh working_provider) example_node example_world)
     = None
   \<and> deposed (snd (run_EvalTree (example_ctx walkRefresh working_provider) example_node
        example_world)) (example_instance, ''a1b2c3d4'') = Some example_refreshed
   \<and> trace (snd (run_EvalTree (example_ctx walkRefresh working_provider) example_node
        example_world))
      = [GetProviderCall ''provider.aws'', ReadDeposedCall example_instance ''a1b2c3d4'',
         RefreshCall example_instance (Some example_object),
         WriteDeposedCall example_instance ''a1b2c3d4'' (Some example_refreshed)]
   \<and> provider (snd (snd (Eval (example_ctx walkRefresh working_provider)
        (EvalTree example_node) (example_world, locals_nil)))) = Some working_provider
   \<and> providerSchema (snd (snd (Eval (example_ctx walkRefresh working_provider)
        (EvalTree example_node) (example_world, locals_nil))))
      = Some (ProviderSchema ''provider.aws'')
   \<and> state (snd (snd (Eval (example_ctx walkRefresh working_provider)
        (EvalTree example_node) (example_world, locals_nil)))) = Some example_refreshed"
proof -
  let ?c = "example_ctx walkRefresh working_provider"
  have op: "Op ?c = walkRefresh"
    and rd: "ReadFault ?c (Resource (Addr example_node)) (DeposedKey example_node) = None"
    and wr: "WriteFault ?c (Resource (Addr example_node)) (DeposedKey example_node) = None"
    by (simp_all add: example_ctx_def)
  have filed: "deposed example_world (Resource (Addr example_node), DeposedKey example_node)
      = Some example_object"
    by (simp add: example_world_def example_node_def)
  have prov: "Refresh (Providers ?c (ResolvedProvider example_node))
      (Resource (Addr example_node)) (Some example_object) = (Some example_refreshed, None)"
    by (simp add: example_ctx_def working_provider_def)
  have acquired: "Providers ?c (ResolvedProvider example_node) = working_provider"
    "Schemas ?c (ResolvedProvider example_node) = ProviderSchema ''provider.aws''"
    by (simp_all add: example_ctx_def example_node_def)
  show ?thesis
    using refresh_writes_updated_object [OF op rd wr filed prov]
    unfolding acquired
    by (simp add: example_node_def example_world_def)
qed

subsection \<open>The apply and destroy branch\<close>

text \<open>
  C3: for every deposed object filed under the node's key, running the tree under
  operation kind Apply or Destroy with a provider that destroys the object (it reports
  absent and no error; the repository serves the read and the write) returns no error,
  leaves nothing filed under the key, and notifies the pre-apply, post-apply and
  state-updated hooks once each, in that order.
\<close>

theorem destroy_success_prunes_entry:
  assumes "Op c = walkApply \<or> Op c = walkDestroy"
    and "ReadFault c (Resource (Addr n)) (DeposedKey n) = None"
    and "WriteFault c (Resource (Addr n)) (DeposedKey n) = None"
    and "deposed w (Resource (Addr n), DeposedKey n) = Some old"
    and "ApplyDestroy (Providers c (ResolvedProvider n)) (Resource (Addr n))
           (DestroyChange (Resource (Addr n)) (Some old)) = (None, None)"
  shows "fst (run_EvalTree c n w) = None
    \<and> deposed (snd (run_EvalTree c n w)) (Resource (Addr n), DeposedKey n) = None
    \<and> (Resource (Addr n), DeposedKey n) \<notin> dom (deposed (snd (run_EvalTree c n w)))
    \<and> filter is_hook (drop (length (trace w)) (trace (snd (run_EvalTree c n w))))
        = [NotifyPreApply (Resource (Addr n)), NotifyPostApply (Resource (Addr n)) None,
           NotifyStateUpdated]
    \<and> trace (snd (run_EvalTree c n w))
        = trace w @ [GetProviderCall (ResolvedProvider n),
                     ReadDeposedCall (Resource (Addr n)) (DeposedKey n),
                     NotifyPreApply (Resource (Addr n)),
                     ApplyDestroyCall (Resource (Addr n))
                       (DestroyChange (Resource (Addr n)) (Some old)),
                     WriteDeposedCall (Resource (Addr n)) (DeposedKey n) None,
                     NotifyPostApply (Resource (Addr n)) None,
                     NotifyStateUpdated]"
proof -
  have "run_EvalTree c n w =
      (None, w\<lparr>deposed := (deposed w)((Resource (Addr n), DeposedKey n) := None),
        trace := trace w @ [GetProviderCall (ResolvedProvider n),
                     ReadDeposedCall (Resource (Addr n)) (DeposedKey n),
                     NotifyPreApply (Resource (Addr n)),
                     ApplyDestroyCall (Resource (Addr n))
                       (DestroyChange (Resource (Addr n)) (Some old)),
                     WriteDeposedCall (Resource (Addr n)) (DeposedKey n) None,
                     NotifyPostApply (Resource (Addr n)) None,
                     NotifyStateUpdated]\<rparr>)"
    unfolding run_EvalTree_apply [OF assms(1)] Let_def
    by (simp add: assms(2-5))
  then show ?thesis by simp
qed

theorem destroy_success_prunes_entry_witness:
  "fst (run_EvalTree (example_ctx walkDestroy working_provider) example_node example_world)
     = None
   \<and> deposed (snd (run_EvalTree (example_ctx walkDestroy working_provider) example_node
        example_world)) (example_instance, ''a1b2c3d4'') = None
   \<and> filter is_hook (trace (snd (run_EvalTree (example_ctx walkDestroy working_provider)
        example_node example_world)))
      = [NotifyPreApply example_instance, NotifyPostApply example_instance None,
         NotifyStateUpdated]"
proof -
  let ?c = "example_ctx walkDestroy working_provider"
  have op: "Op ?c = walkApply \<or> Op ?c = walkDestroy"
    and rd: "ReadFault ?c (Resource (Addr example_node)) (DeposedKey example_node) = None"
    and wr: "WriteFault ?c (Resource (Addr example_node)) (DeposedKey example_node) = None"
    by (simp_all add: example_ctx_def)
  have filed: "deposed example_world (Resource (Addr example_node), DeposedKey example_node)
      = Some example_object"
    by (simp add: example_world_def example_node_def)
  have prov: "ApplyDestroy (Providers ?c (ResolvedProvider example_node))
      (Resource (Addr example_node))
      (DestroyChange (Resource (Addr example_node)) (Some example_object)) = (None, None)"
    by (simp add: example_ctx_def working_provider_def)
  show ?thesis
    using destroy_success_prunes_entry [OF op rd wr filed prov]
    by (simp add: example_node_def example_world_def)
qed

text \<open>
  C1: for every deposed object \<open>old\<close> filed under the node's key, running the tree under
  operation kind Apply or Destroy with a provider whose \<^verbatim>\<open>ApplyDestroy\<close> fails with an
  error and reports a partially-updated object \<open>partial\<close> (the repository serving the
  read and the write) leaves \<open>partial\<close> filed under the key, neither absent nor the
  object read, and returns the provider's error to the caller.
\<close>

theorem destroy_failure_keeps_partial_object:
  assumes "Op c = walkApply \<or> Op c = walkDestroy"
    and "ReadFault c (Resource (Addr n)) (DeposedKey n) = None"
    and "WriteFault c (Resource (Addr n)) (DeposedKey n) = None"
    and "deposed w (Resource (Addr n), DeposedKey n) = Some old"
    and "ApplyDestroy (Providers c (ResolvedProvider n)) (Resource (Addr n))
           (DestroyChange (Resource (Addr n)) (Some old)) = (Some partial, Some e)"
  shows "fst (run_EvalTree c n w) = Some e
    \<and> deposed (snd (run_EvalTree c n w)) (Resource (Addr n), DeposedKey n) = Some partial
    \<and> deposed (snd (run_EvalTree c n w))
        = (deposed w)((Resource (Addr n), DeposedKey n) \<mapsto> partial)"
proof -
  have "run_EvalTree c n w =
      (Some e, w\<lparr>deposed := (deposed w)((Resource (Addr n), DeposedKey n) \<mapsto> partial),
        trace := trace w @ [GetProviderCall (ResolvedProvider n),
                     ReadDeposedCall (Resource (Addr n)) (DeposedKey n),
                     NotifyPreApply (Resource (Addr n)),
                     ApplyDestroyCall (Resource (Addr n))
                       (DestroyChange (Resource (Addr n)) (Some old)),
                     WriteDeposedCall (Resource (Addr n)) (DeposedKey n) (Some partial),
                     NotifyPostApply (Resource (Addr n)) (Some e)]\<rparr>)"
    unfolding run_EvalTree_apply [OF assms(1)] Let_def
    by (simp add: assms(2-5))
  then show ?thesis by simp
qed

theorem destroy_failure_keeps_partial_object_witness:
  "fst (run_EvalTree (example_ctx walkApply failing_provider) example_node example_world)
     = Some example_error
   \<and> deposed (snd (run_EvalTree (example_ctx walkApply failing_provider) example_node
        example_world)) (example_instance, ''a1b2c3d4'') = Some example_partial
   \<and> example_partial \<noteq> example_object"
proof -
  let ?c = "example_ctx walkApply failing_provider"
  have op: "Op ?c = walkApply \<or> Op ?c = walkDestroy"
    and rd: "ReadFault ?c (Resource (Addr example_node)) (DeposedKey example_node) = None"
    and wr: "WriteFault ?c (Resource (Addr example_node)) (DeposedKey example_node) = None"
    by (simp_all add: example_ctx_def)
  have filed: "deposed example_world (Resource (Addr example_node), DeposedKey example_node)
      = Some example_object"
    by (simp add: example_world_def example_node_def)
  have prov: "ApplyDestroy (Providers ?c (ResolvedProvider example_node))
      (Resource (Addr example_node))
      (DestroyChange (Resource (Addr example_node)) (Some example_object))
      = (Some example_partial, Some example_error)"
    by (simp add: example_ctx_def failing_provider_def)
  have differ: "example_partial \<noteq> example_object"
    by (simp add: example_partial_def example_object_def)
  show ?thesis
    using destroy_failure_keeps_partial_object [OF op rd wr filed prov] differ
    by (simp add: example_node_def)
qed

text \<open>
  C2: in a run under operation kind Apply or Destroy, whatever the provider's
  \<^verbatim>\<open>ApplyDestroy\<close> reports (an object \<open>obj\<close> or absent, with an error \<open>perr\<close> or none):
  \<^item> if the repository serves the read and the write, the write of \<open>obj\<close> under the
    node's key is made right after the provider call, whether or not that call failed,
    then the post-apply hook is notified, and only then is \<open>perr\<close> returned to the caller;
    when \<open>perr\<close> is an error nothing happens after the post-apply hook, when it is nil
    the state-updated hook follows;
  \<^item> an error of the repository on the read ends the run at once with that error, before
    any hook or provider call;
  \<^item> an error of the repository on the write ends the run at once with that error,
    the repository content as it was.
  The pipeline has no key-allocating step, so no other error can end it.
\<close>

theorem provider_error_deferred_until_written:
  assumes "Op c = walkApply \<or> Op c = walkDestroy"
    and "a = Resource (Addr n)" and "k = DeposedKey n"
    and "ch = DestroyChange a (deposed w (a, k))"
    and "ApplyDestroy (Providers c (ResolvedProvider n)) a ch = (obj, perr)"
  shows "(ReadFault c a k = None \<and> WriteFault c a k = None \<longrightarrow>
           fst (run_EvalTree c n w) = perr
           \<and> deposed (snd (run_EvalTree c n w)) = (deposed w)((a, k) := obj)
           \<and> trace (snd (run_EvalTree c n w))
               = trace w @ [GetProviderCall (ResolvedProvider n), ReadDeposedCall a k,
                            NotifyPreApply a, ApplyDestroyCall a ch,
                            WriteDeposedCall a k obj, NotifyPostApply a perr]
                   @ (if perr = None then [NotifyStateUpdated] else []))
    \<and> (\<forall>e. ReadFault c a k = Some e \<longrightarrow>
           fst (run_EvalTree c n w) = Some e
           \<and> deposed (snd (run_EvalTree c n w)) = deposed w
           \<and> trace (snd (run_EvalTree c n w))
               = trace w @ [GetProviderCall (ResolvedProvider n), ReadDeposedCall a k])
    \<and> (\<forall>e. ReadFault c a k = None \<and> WriteFault c a k = Some e \<longrightarrow>
           fst (run_EvalTree c n w) = Some e
           \<and> deposed (snd (run_EvalTree c n w)) = deposed w
           \<and> trace (snd (run_EvalTree c n w))
               = trace w @ [GetProviderCall (ResolvedProvider n), ReadDeposedCall a k,
                            NotifyPreApply a, ApplyDestroyCall a ch,
                            WriteDeposedCall a k obj])"
proof -
  have call: "ApplyDestroy (Providers c (ResolvedProvider n)) (Resource (Addr n))
      (DestroyChange (Resource (Addr n)) (deposed w (Resource (Addr n), DeposedKey n)))
      = (obj, perr)"
    using assms(2-5) by simp
  note run = run_EvalTree_apply [OF assms(1), of n w, unfolded Let_def call fst_conv snd_conv]
  show ?thesis
    unfolding assms(2-4) run
    by (cases perr) (simp_all split: option.splits)
qed

theorem provider_error_deferred_until_written_witness:
  "fst (run_EvalTree (example_ctx walkDestroy failing_provider) example_node example_world)
     = Some example_error
   \<and> trace (snd (run_EvalTree (example_ctx walkDestroy failing_provider) example_node
        example_world))
      = [GetProviderCall ''provider.aws'', ReadDeposedCall example_instance ''a1b2c3d4'',
         NotifyPreApply example_instance,
         ApplyDestroyCall example_instance
           (DestroyChange example_instance (Some example_object)),
         WriteDeposedCall example_instance ''a1b2c3d4'' (Some example_partial),
         NotifyPostApply example_instance (Some example_error)]"
proof -
  let ?c = "example_ctx walkDestroy failing_provider"
  have op: "Op ?c = walkApply \<or> Op ?c = walkDestroy"
    and rd: "ReadFault ?c (Resource (Addr example_node)) (DeposedKey example_node) = None"
    and wr: "WriteFault ?c (Resource (Addr example_node)) (DeposedKey example_node) = None"
    by (simp_all add: example_ctx_def)
  have prov: "ApplyDestroy (Providers ?c (ResolvedProvider example_node))
      (Resource (Addr example_node))
      (DestroyChange (Resource (Addr example_node))
         (deposed example_world (Resource (Addr example_node), DeposedKey example_node)))
      = (Some example_partial, Some example_error)"
    by (simp add: example_ctx_def failing_provider_def)
  show ?thesis
    using provider_error_deferred_until_written [OF op refl refl refl prov] rd wr
    by (simp add: example_node_def example_world_def)
qed

end
